theory Spec2Isabelle
  imports Main "HOL-Library.AList" "HOL-Library.Multiset"
begin

section \<open>The game session of briefjesspel\<close>

text \<open>
  The class \<open>Game\<close> is embedded as a record of its fields and one function per method.
  A method that mutates \<open>this\<close> takes the session and returns the session it leaves
  behind; a method that can throw returns an \<open>outcome\<close>. The two \<open>Map\<close>s that are
  iterated (players, teams) are association lists in insertion order, updated with
  \<open>AList.update\<close> (which keeps the position of an existing key, as \<open>Map.set\<close> does) and
  \<open>AList.delete\<close>. Arrays are lists; \<open>entriesRemaining\<close> is a stack whose top is the
  last element. The fields \<open>id\<close>, \<open>path\<close> and \<open>createdAt\<close> are never read by a method
  and are left out; \<open>updatedAt\<close>, which \<open>save\<close> sets to the current date, is the
  number of saves so far.
\<close>

subsection \<open>Values\<close>

type_synonym ident = string
type_synonym entry = string

text \<open>
  Modelled from the spec: the class \<open>User\<close> is not among the sources. The spec gives a
  player an identity, an optional display name, a font, a nullable team assignment, an
  ordered list of submitted entries and a readiness flag; \<open>Game\<close> reads and writes
  exactly these properties (\<open>id\<close>, \<open>name\<close>, \<open>font\<close>, \<open>teamId\<close>, \<open>entries\<close> with
  \<open>push\<close>, \<open>isReady\<close>).
\<close>

record user =
  u_id :: ident
  u_name :: "string option"
  u_font :: "string option"
  u_teamId :: "ident option"
  u_entries :: "entry list"
  u_isReady :: bool

text \<open>
  Modelled from the spec: the class \<open>Team\<close> is not among the sources. The spec gives a
  team an identity, a display name and a cumulative integer score; \<open>Game\<close> uses \<open>id\<close>
  and \<open>score\<close>.
\<close>

record team =
  t_id :: ident
  t_name :: string
  t_score :: int

text \<open>The object literal \<open>{teamId, players}\<close> pushed by \<open>_randomizeTurnOrder\<close>.\<close>

record turn_entry =
  o_teamId :: ident
  o_players :: "ident list"

datatype signal =
    PlayerAdded user
  | PlayerNameSet user
  | PlayerFontSet user
  | PlayerLeft ident
  | PlayerRemoved ident
  | EntriesPerPlayerUpdated
  | PlayerReady user
  | TeamAdded team
  | PlayerAddedToTeam user
  | TeamRemoved ident
  | TurnTimeUpdated
  | Started
  | RoundStarted
  | TurnStarted
  | NextEntrySignal
  | TurnFinished
  | NextTurnSignal
  | RoundFinished
  | NextRoundSignal
  | Finished
  | TeamScored team

record game =
  master :: "ident option"
  players :: "(ident \<times> user) list"
  removedPlayers :: "(ident \<times> ident) list"
  teams :: "(ident \<times> team) list"
  entriesPerPlayer :: int
  entries :: "entry list"
  turnOrder :: "turn_entry list"
  isStarted :: bool
  isFinished :: bool
  turnTime :: int
  scorePerEntry :: int
  entriesRemaining :: "entry list"
  roundStarted :: bool
  roundFinished :: bool
  turnStarted :: bool
  turnFinished :: bool
  turnTimeLeft :: int
  timer :: "nat option"
  intervals :: "nat list"
  timersCreated :: nat
  updatedAt :: nat
  signals :: "signal list"

text \<open>
  \<open>timer\<close> is the handle stored in \<open>this.timer\<close> (\<open>None\<close> while it is undefined);
  \<open>intervals\<close> are the handles of the intervals that \<open>setInterval\<close> has scheduled and
  \<open>clearInterval\<close> has not yet cancelled; \<open>timersCreated\<close> supplies fresh handles.
  \<open>signals\<close> is the sequence of events emitted so far, oldest first.
  The numbers of the session (quota, seconds, scores) are integers; the source holds them
  in doubles, which agree with the integers below \<open>2^53\<close> in absolute value.
\<close>

datatype js_error = TypeError

datatype outcome = Done game | Threw js_error game

fun state_of :: "outcome \<Rightarrow> game" where
  "state_of (Done g) = g"
| "state_of (Threw e g) = g"

text \<open>\<open>new Game()\<close>: the constructor with \<open>data = {}\<close>.\<close>

definition new_Game :: game where
  "new_Game = \<lparr> master = None, players = [], removedPlayers = [], teams = [],
     entriesPerPlayer = 0, entries = [], turnOrder = [], isStarted = False,
     isFinished = False, turnTime = 0, scorePerEntry = 1, entriesRemaining = [],
     roundStarted = False, roundFinished = False, turnStarted = False,
     turnFinished = False, turnTimeLeft = 0, timer = None, intervals = [],
     timersCreated = 0, updatedAt = 0, signals = [] \<rparr>"

subsection \<open>JavaScript values in conditions\<close>

text \<open>A string or \<open>null\<close> in a condition: only a non-empty string is truthy.\<close>

definition truthy_str :: "string option \<Rightarrow> bool" where
  "truthy_str v = (case v of None \<Rightarrow> False | Some s \<Rightarrow> s \<noteq> [])"

text \<open>A number or \<open>undefined\<close> in a condition: only a non-zero number is truthy.\<close>

definition truthy_num :: "int option \<Rightarrow> bool" where
  "truthy_num v = (case v of None \<Rightarrow> False | Some n \<Rightarrow> n \<noteq> 0)"

text \<open>\<open>v > n\<close> for a number or \<open>undefined\<close>: \<open>undefined\<close> compares false.\<close>

definition gt_num :: "int option \<Rightarrow> int \<Rightarrow> bool" where
  "gt_num v n = (case v of None \<Rightarrow> False | Some m \<Rightarrow> m > n)"

text \<open>
  \<open>xs.size\<close> where \<open>xs\<close> is an Array. An Array has the property \<open>length\<close> and no
  property \<open>size\<close> (that is a property of \<open>Map\<close> and \<open>Set\<close>), so the read gives
  \<open>undefined\<close>, here \<open>None\<close>, whatever the array holds. \<open>turnOrder\<close>,
  \<open>entriesRemaining\<close> and a user's \<open>entries\<close> are Arrays: they are created by \<open>[]\<close>,
  spread or \<open>filter\<close> and used with \<open>push\<close>, \<open>pop\<close>, \<open>shift\<close> and indices.
\<close>

definition array_size :: "'a list \<Rightarrow> int option" where
  "array_size xs = None"

text \<open>\<open>xs.length\<close>, as \<open>activeEntry\<close> reads it.\<close>

definition array_length :: "'a list \<Rightarrow> int" where
  "array_length xs = int (length xs)"

text \<open>
  The values the loop variable of \<open>for (const x in m.values())\<close> takes. \<open>for ... in\<close>
  enumerates the enumerable string-keyed properties of its operand; the operand is a Map
  iterator, which has none, so the body is never entered. (\<open>for ... of\<close> would visit
  the values \<open>vs\<close>.)
\<close>

definition for_in_iterator :: "'a list \<Rightarrow> 'a list" where
  "for_in_iterator vs = []"

text \<open>
  Modelled from the spec: \<open>lib/shuffle\<close> is not among the sources. The spec asks for an
  unbiased in-place shuffle (Fisher-Yates) whose random number generator is an external
  dependency. Here the draws are the first argument: each draw picks, among the elements
  not yet placed, the one that comes next; when the draws run out the rest keeps its order.
\<close>

fun shuffle :: "nat list \<Rightarrow> 'a list \<Rightarrow> 'a list" where
  "shuffle [] xs = xs"
| "shuffle (r # rs) xs =
     (if xs = [] then []
      else (let i = r mod length xs
            in xs ! i # shuffle rs (take i xs @ drop (Suc i) xs)))"

subsection \<open>Getters\<close>

definition has :: "('k \<times> 'v) list \<Rightarrow> 'k \<Rightarrow> bool" where
  "has m k = (map_of m k \<noteq> None)"

definition canStart :: "game \<Rightarrow> bool" where
  "canStart g = (\<not> isStarted g \<and>
     list_all (\<lambda>user. u_isReady user \<and> truthy_str (u_teamId user)) (map snd (players g)))"

definition canStartRound :: "game \<Rightarrow> bool" where
  "canStartRound g =
     (isStarted g \<and> \<not> roundStarted g \<and> turnTime g \<noteq> 0 \<and> scorePerEntry g \<noteq> 0)"

definition canStartTurn :: "game \<Rightarrow> bool" where
  "canStartTurn g =
     (roundStarted g \<and> \<not> turnStarted g \<and> truthy_num (array_size (entriesRemaining g)))"

text \<open>
  In the four projections the branch taken when \<open>turnOrder.size\<close> is truthy indexes the
  array; position 0 of an empty \<open>players\<close> array reads \<open>undefined\<close>, given as \<open>None\<close>.
\<close>

definition front_player :: "turn_entry \<Rightarrow> ident option" where
  "front_player t = (case o_players t of [] \<Rightarrow> None | p # _ \<Rightarrow> Some p)"

definition activeTeam :: "game \<Rightarrow> ident option" where
  "activeTeam g =
     (if truthy_num (array_size (turnOrder g))
      then (case turnOrder g of [] \<Rightarrow> None | t # _ \<Rightarrow> Some (o_teamId t))
      else None)"

definition activePlayer :: "game \<Rightarrow> ident option" where
  "activePlayer g =
     (if truthy_num (array_size (turnOrder g))
      then (case turnOrder g of [] \<Rightarrow> None | t # _ \<Rightarrow> front_player t)
      else None)"

definition nextTeam :: "game \<Rightarrow> ident option" where
  "nextTeam g =
     (if gt_num (array_size (turnOrder g)) 1
      then (case turnOrder g of _ # t # _ \<Rightarrow> Some (o_teamId t) | _ \<Rightarrow> None)
      else None)"

definition nextPlayer :: "game \<Rightarrow> ident option" where
  "nextPlayer g =
     (if gt_num (array_size (turnOrder g)) 1
      then (case turnOrder g of _ # t # _ \<Rightarrow> front_player t | _ \<Rightarrow> None)
      else None)"

definition activeEntry :: "game \<Rightarrow> entry option" where
  "activeEntry g =
     (if array_length (entriesRemaining g) - 1 < 0 then None
      else Some (entriesRemaining g ! nat (array_length (entriesRemaining g) - 1)))"

subsection \<open>Events\<close>

text \<open>\<open>emit\<close> saves first (\<open>save\<close> refreshes \<open>updatedAt\<close>), then emits the event.\<close>

definition save :: "game \<Rightarrow> game" where
  "save g = g\<lparr>updatedAt := Suc (updatedAt g)\<rparr>"

definition emit :: "signal \<Rightarrow> game \<Rightarrow> game" where
  "emit ev g = (let g1 = save g in g1\<lparr>signals := signals g1 @ [ev]\<rparr>)"

subsection \<open>Private methods\<close>

text \<open>
  The keys that \<open>for (const k in xs)\<close> visits when \<open>xs\<close> is an Array: its indices,
  as decimal strings.
\<close>

function index_key :: "nat \<Rightarrow> string" where
  "index_key n =
     (if n < 10 then [char_of (48 + n)]
      else index_key (n div 10) @ [char_of (48 + n mod 10)])"
  by pat_completeness auto
termination
  by (relation "measure id") auto

definition for_in_array :: "'a list \<Rightarrow> string list" where
  "for_in_array xs = map index_key [0..<length xs]"

definition playerIsReady :: "game \<Rightarrow> user \<Rightarrow> bool" where
  "playerIsReady g user =
     (truthy_str (u_name user) \<and> entriesPerPlayer g \<noteq> 0 \<and>
      array_size (u_entries user) = Some (entriesPerPlayer g))"

text \<open>
  \<open>_checkPlayerReady(user)\<close>: the user object is the one registered under \<open>userId\<close>;
  setting its flag is an update of the registry at that key.
\<close>

definition checkPlayerReady :: "ident \<Rightarrow> game \<Rightarrow> game" where
  "checkPlayerReady userId g =
     (case map_of (players g) userId of
        None \<Rightarrow> g
      | Some user \<Rightarrow>
          if \<not> u_isReady user \<and> playerIsReady g user
          then (let user' = user\<lparr>u_isReady := True\<rparr>
                in emit (PlayerReady user')
                     (g\<lparr>players := AList.update userId user' (players g)\<rparr>))
          else g)"

text \<open>
  In \<open>_fillEntries\<close> and \<open>_randomizeTurnOrder\<close> the loop variable ranges over
  \<open>for_in_iterator\<close> of the registry's values; the bodies are written as the source
  writes them. The inner loop of \<open>_fillEntries\<close> is a \<open>for ... in\<close> over an Array.
\<close>

definition fillEntries :: "game \<Rightarrow> game" where
  "fillEntries g =
     foldl (\<lambda>acc user.
              foldl (\<lambda>acc2 entry. acc2\<lparr>entries := entries acc2 @ [entry]\<rparr>)
                acc (for_in_array (u_entries user)))
       g (for_in_iterator (map snd (players g)))"

definition playersForTeam :: "game \<Rightarrow> ident \<Rightarrow> user list" where
  "playersForTeam g teamId =
     filter (\<lambda>user. u_teamId user = Some teamId) (map snd (players g))"

definition randomizeTurnOrder :: "nat list \<Rightarrow> game \<Rightarrow> game" where
  "randomizeTurnOrder r g =
     (let g0 = g\<lparr>turnOrder := []\<rparr>;
          g1 = foldl (\<lambda>acc team.
                 acc\<lparr>turnOrder := turnOrder acc @
                   [\<lparr>o_teamId = t_id team,
                     o_players = shuffle r (map u_id (playersForTeam acc (t_id team)))\<rparr>]\<rparr>)
                 g0 (for_in_iterator (map snd (teams g0)))
      in g1\<lparr>turnOrder := shuffle r (turnOrder g1)\<rparr>)"

definition randomizeEntries :: "nat list \<Rightarrow> game \<Rightarrow> game" where
  "randomizeEntries r g = g\<lparr>entriesRemaining := shuffle r (entries g)\<rparr>"

definition clearInterval :: "nat option \<Rightarrow> game \<Rightarrow> game" where
  "clearInterval h g =
     (case h of None \<Rightarrow> g | Some n \<Rightarrow> g\<lparr>intervals := removeAll n (intervals g)\<rparr>)"

definition startTimer :: "game \<Rightarrow> game" where
  "startTimer g =
     g\<lparr>timer := Some (timersCreated g),
       intervals := intervals g @ [timersCreated g],
       timersCreated := Suc (timersCreated g)\<rparr>"

text \<open>\<open>this.teams.get(this.activeTeam)\<close>: no team is registered under \<open>null\<close>.\<close>

definition score :: "game \<Rightarrow> game" where
  "score g =
     (case activeTeam g of
        None \<Rightarrow> g
      | Some teamId \<Rightarrow>
          (case map_of (teams g) teamId of
             None \<Rightarrow> g
           | Some team \<Rightarrow>
               (let team' = team\<lparr>t_score := t_score team + scorePerEntry g\<rparr>
                in emit (TeamScored team')
                     (g\<lparr>teams := AList.update teamId team' (teams g)\<rparr>))))"

text \<open>
  \<open>_shiftTurn\<close>. On an empty queue \<open>shift()\<close> returns \<open>undefined\<close> and reading
  \<open>team.push\<close> throws. Otherwise \<open>team\<close> is the object literal \<open>{teamId, players}\<close>,
  which has no method \<open>push\<close>: the argument \<open>team.players.shift()\<close> is evaluated, then
  the call of \<open>undefined\<close> throws. The entry has left the queue by then and
  \<open>this.turnOrder.push(team)\<close> is not reached.
\<close>

definition shiftTurn :: "game \<Rightarrow> outcome" where
  "shiftTurn g =
     (case turnOrder g of
        [] \<Rightarrow> Threw TypeError g
      | team # rest \<Rightarrow> Threw TypeError (g\<lparr>turnOrder := rest\<rparr>))"

subsection \<open>Public methods\<close>

definition addPlayer :: "user \<Rightarrow> bool \<Rightarrow> game \<Rightarrow> game" where
  "addPlayer user isMaster g =
     (if \<not> has (players g) (u_id user)
      then (let g1 = g\<lparr>players := AList.update (u_id user) user (players g)\<rparr>;
                g2 = (if isMaster then g1\<lparr>master := Some (u_id user)\<rparr> else g1)
            in emit (PlayerAdded user) g2)
      else g)"

definition setPlayerName :: "ident \<Rightarrow> string \<Rightarrow> game \<Rightarrow> game" where
  "setPlayerName userId nm g =
     (case map_of (players g) userId of
        None \<Rightarrow> g
      | Some user \<Rightarrow>
          (let user' = user\<lparr>u_name := Some nm\<rparr>
           in checkPlayerReady userId
                (emit (PlayerNameSet user')
                   (g\<lparr>players := AList.update userId user' (players g)\<rparr>))))"

definition setFont :: "ident \<Rightarrow> string \<Rightarrow> game \<Rightarrow> game" where
  "setFont userId fnt g =
     (case map_of (players g) userId of
        None \<Rightarrow> g
      | Some user \<Rightarrow>
          (let user' = user\<lparr>u_font := Some fnt\<rparr>
           in emit (PlayerFontSet user')
                (g\<lparr>players := AList.update userId user' (players g)\<rparr>)))"

definition removePlayer :: "ident \<Rightarrow> bool \<Rightarrow> game \<Rightarrow> game" where
  "removePlayer userId byHimself g =
     (if has (players g) userId \<and> activePlayer g \<noteq> Some userId
      then (let g1 = g\<lparr>players := AList.delete userId (players g)\<rparr>;
                g2 = g1\<lparr>turnOrder :=
                        map (\<lambda>t. t\<lparr>o_players := filter (\<lambda>i. i \<noteq> userId) (o_players t)\<rparr>)
                          (turnOrder g1)\<rparr>;
                g3 = (if Some userId = master g2 \<and> players g2 \<noteq> []
                      then g2\<lparr>master := Some (u_id (snd (hd (players g2))))\<rparr>
                      else g2)
            in if byHimself then emit (PlayerLeft userId) g3
               else emit (PlayerRemoved userId)
                      (g3\<lparr>removedPlayers := AList.update userId userId (removedPlayers g3)\<rparr>))
      else g)"

definition setEntriesPerPlayer :: "int \<Rightarrow> game \<Rightarrow> game" where
  "setEntriesPerPlayer n g = emit EntriesPerPlayerUpdated (g\<lparr>entriesPerPlayer := n\<rparr>)"

definition addEntry :: "ident \<Rightarrow> entry \<Rightarrow> game \<Rightarrow> game" where
  "addEntry userId e g =
     (case map_of (players g) userId of
        None \<Rightarrow> g
      | Some user \<Rightarrow>
          (let user' = user\<lparr>u_entries := u_entries user @ [e]\<rparr>
           in checkPlayerReady userId
                (g\<lparr>players := AList.update userId user' (players g)\<rparr>)))"

definition addTeam :: "team \<Rightarrow> game \<Rightarrow> game" where
  "addTeam tm g = emit (TeamAdded tm) (g\<lparr>teams := AList.update (t_id tm) tm (teams g)\<rparr>)"

definition addPlayerToTeam :: "ident \<Rightarrow> ident \<Rightarrow> game \<Rightarrow> game" where
  "addPlayerToTeam userId teamId g =
     (case map_of (players g) userId of
        None \<Rightarrow> g
      | Some user \<Rightarrow>
          if has (teams g) teamId
          then (let user' = user\<lparr>u_teamId := Some teamId\<rparr>
                in emit (PlayerAddedToTeam user')
                     (g\<lparr>players := AList.update userId user' (players g)\<rparr>))
          else g)"

text \<open>
  \<open>removeTeam\<close>: the loop is a \<open>for ... in\<close> over the Array of the team's players, so
  its variable is an index key, a primitive string. A class body is strict code, where
  assigning a property of a primitive throws; the first iteration does.
\<close>

definition removeTeam :: "ident \<Rightarrow> game \<Rightarrow> outcome" where
  "removeTeam teamId g =
     (if has (teams g) teamId \<and> activeTeam g \<noteq> Some teamId
      then (let g1 = g\<lparr>teams := AList.delete teamId (teams g)\<rparr>;
                g2 = g1\<lparr>turnOrder := filter (\<lambda>t. o_teamId t \<noteq> teamId) (turnOrder g1)\<rparr>
            in (case for_in_array (playersForTeam g2 teamId) of
                  [] \<Rightarrow> Done (emit (TeamRemoved teamId) g2)
                | key # _ \<Rightarrow> Threw TypeError g2))
      else Done g)"

definition setTurnTime :: "int \<Rightarrow> game \<Rightarrow> game" where
  "setTurnTime t g = emit TurnTimeUpdated (g\<lparr>turnTime := t\<rparr>)"

text \<open>
  The draws of the shuffles a method performs are its first arguments: \<open>r1\<close> for
  \<open>_randomizeTurnOrder\<close>, \<open>r2\<close> (or \<open>r\<close>) for \<open>_randomizeEntries\<close>.
\<close>

definition startRound :: "nat list \<Rightarrow> nat list \<Rightarrow> game \<Rightarrow> game" where
  "startRound r1 r2 g =
     (if canStartRound g
      then (let g1 = randomizeEntries r2 (randomizeTurnOrder r1 g)
            in emit RoundStarted (g1\<lparr>turnTimeLeft := turnTime g1, roundStarted := True\<rparr>))
      else g)"

definition start :: "nat list \<Rightarrow> nat list \<Rightarrow> game \<Rightarrow> game" where
  "start r1 r2 g =
     (if canStart g
      then startRound r1 r2 (emit Started ((fillEntries g)\<lparr>isStarted := True\<rparr>))
      else g)"

definition startTurn :: "game \<Rightarrow> game" where
  "startTurn g =
     (if canStartTurn g
      then emit TurnStarted ((startTimer g)\<lparr>turnStarted := True\<rparr>)
      else g)"

definition finishRound :: "game \<Rightarrow> game" where
  "finishRound g = emit RoundFinished ((clearInterval (timer g) g)\<lparr>roundFinished := True\<rparr>)"

text \<open>\<open>pop()\<close> removes the last element; on an empty array it removes nothing.\<close>

definition nextEntry :: "game \<Rightarrow> game" where
  "nextEntry g =
     (let g1 = score g;
          g2 = g1\<lparr>entriesRemaining := butlast (entriesRemaining g1)\<rparr>
      in if truthy_num (array_size (entriesRemaining g2))
         then emit NextEntrySignal g2
         else finishRound g2)"

definition finishTurn :: "nat list \<Rightarrow> game \<Rightarrow> game" where
  "finishTurn r g = emit TurnFinished (randomizeEntries r (g\<lparr>turnFinished := True\<rparr>))"

definition nextTurn :: "game \<Rightarrow> outcome" where
  "nextTurn g =
     (case shiftTurn g of
        Threw e g1 \<Rightarrow> Threw e g1
      | Done g1 \<Rightarrow>
          Done (emit NextTurnSignal
                  (g1\<lparr>turnStarted := False, turnFinished := False,
                      turnTimeLeft := turnTime g1\<rparr>)))"

definition nextRound :: "game \<Rightarrow> game" where
  "nextRound g =
     emit NextRoundSignal
       (g\<lparr>roundStarted := False, roundFinished := False, turnTimeLeft := turnTime g\<rparr>)"

definition finish :: "game \<Rightarrow> game" where
  "finish g = emit Finished (g\<lparr>isFinished := True\<rparr>)"

text \<open>
  One firing of the callback that \<open>_startTimer\<close> schedules under handle \<open>h\<close>; a
  cancelled interval does not fire. The callback cancels \<open>this.timer\<close>, then finishes
  the turn.
\<close>

definition tick :: "nat list \<Rightarrow> nat \<Rightarrow> game \<Rightarrow> game" where
  "tick r h g =
     (if h \<in> set (intervals g)
      then (let g1 = g\<lparr>turnTimeLeft := turnTimeLeft g - 1\<rparr>
            in if turnTimeLeft g1 = 0
               then finishTurn r (clearInterval (timer g1) g1)
               else g1)
      else g)"

subsection \<open>Sessions\<close>

text \<open>
  A command is one call of a public method, or one firing of an interval. A session is a
  sequence of commands applied to a game; after a call that throws, the session goes on
  from the state the call left behind.
\<close>

datatype command =
    AddPlayer user bool
  | SetPlayerName ident string
  | SetFont ident string
  | RemovePlayer ident bool
  | SetEntriesPerPlayer int
  | AddEntry ident entry
  | AddTeam team
  | AddPlayerToTeam ident ident
  | RemoveTeam ident
  | SetTurnTime int
  | Start "nat list" "nat list"
  | StartRound "nat list" "nat list"
  | StartTurn
  | NextEntry
  | FinishTurn "nat list"
  | NextTurn
  | FinishRound
  | NextRound
  | Finish
  | Tick "nat list" nat

fun exec :: "command \<Rightarrow> game \<Rightarrow> outcome" where
  "exec (AddPlayer u m) g = Done (addPlayer u m g)"
| "exec (SetPlayerName i n) g = Done (setPlayerName i n g)"
| "exec (SetFont i f) g = Done (setFont i f g)"
| "exec (RemovePlayer i b) g = Done (removePlayer i b g)"
| "exec (SetEntriesPerPlayer n) g = Done (setEntriesPerPlayer n g)"
| "exec (AddEntry i e) g = Done (addEntry i e g)"
| "exec (AddTeam t) g = Done (addTeam t g)"
| "exec (AddPlayerToTeam i t) g = Done (addPlayerToTeam i t g)"
| "exec (RemoveTeam t) g = removeTeam t g"
| "exec (SetTurnTime t) g = Done (setTurnTime t g)"
| "exec (Start r1 r2) g = Done (start r1 r2 g)"
| "exec (StartRound r1 r2) g = Done (startRound r1 r2 g)"
| "exec StartTurn g = Done (startTurn g)"
| "exec NextEntry g = Done (nextEntry g)"
| "exec (FinishTurn r) g = Done (finishTurn r g)"
| "exec NextTurn g = nextTurn g"
| "exec FinishRound g = Done (finishRound g)"
| "exec NextRound g = Done (nextRound g)"
| "exec Finish g = Done (finish g)"
| "exec (Tick r h) g = Done (tick r h g)"

fun run :: "command list \<Rightarrow> game \<Rightarrow> game" where
  "run [] g = g"
| "run (c # cs) g = run cs (state_of (exec c g))"

subsection \<open>Sample sessions\<close>

text \<open>
  Three players in two teams, as in the scenario of the specification: team A has
  \<open>p1\<close> and \<open>p2\<close>, team B has \<open>p3\<close>; one entry each. \<open>lobby\<close> is the session
  before the start, \<open>in_round\<close> a session in a round with the entry \<open>dog\<close> already
  consumed.
\<close>

definition ann :: user where
  "ann = \<lparr>u_id = ''p1'', u_name = Some ''ann'', u_font = None, u_teamId = Some ''A'',
     u_entries = [''cat''], u_isReady = True\<rparr>"

definition bob :: user where
  "bob = \<lparr>u_id = ''p2'', u_name = Some ''bob'', u_font = None, u_teamId = Some ''A'',
     u_entries = [''dog''], u_isReady = True\<rparr>"

definition cid :: user where
  "cid = \<lparr>u_id = ''p3'', u_name = Some ''cid'', u_font = None, u_teamId = Some ''B'',
     u_entries = [''owl''], u_isReady = True\<rparr>"

definition team_A :: team where
  "team_A = \<lparr>t_id = ''A'', t_name = ''reds'', t_score = 0\<rparr>"

definition team_B :: team where
  "team_B = \<lparr>t_id = ''B'', t_name = ''blues'', t_score = 0\<rparr>"

definition lobby :: game where
  "lobby = new_Game\<lparr>master := Some ''p1'',
     players := [(''p1'', ann), (''p2'', bob), (''p3'', cid)],
     teams := [(''A'', team_A), (''B'', team_B)],
     entriesPerPlayer := 1, turnTime := 30\<rparr>"

definition in_round :: game where
  "in_round = lobby\<lparr>isStarted := True, roundStarted := True, turnTimeLeft := 30,
     entries := [''cat'', ''dog'', ''owl''],
     entriesRemaining := [''owl'', ''cat''],
     turnOrder := [\<lparr>o_teamId = ''A'', o_players = [''p1'', ''p2'']\<rparr>,
                   \<lparr>o_teamId = ''B'', o_players = [''p3'']\<rparr>]\<rparr>"

text \<open>The same round with one entry left on the stack.\<close>

definition last_entry :: game where
  "last_entry = in_round\<lparr>entriesRemaining := [''cat'']\<rparr>"

subsection \<open>Predicates of the properties\<close>

text \<open>
  The registry is well formed when no key occurs twice and every user is stored under
  its own id.
\<close>

definition registry_ok :: "(ident \<times> user) list \<Rightarrow> bool" where
  "registry_ok ps = (distinct (map fst ps) \<and> list_all (\<lambda>p. u_id (snd p) = fst p) ps)"

text \<open>The player registered under \<open>k\<close> has its readiness flag set.\<close>

definition ready_at :: "game \<Rightarrow> ident \<Rightarrow> bool" where
  "ready_at g k = (case map_of (players g) k of None \<Rightarrow> False | Some u \<Rightarrow> u_isReady u)"

text \<open>The event is \<open>playerReady\<close> for the player with id \<open>k\<close>.\<close>

fun ready_for :: "ident \<Rightarrow> signal \<Rightarrow> bool" where
  "ready_for k (PlayerReady u) = (u_id u = k)"
| "ready_for k ev = False"

text \<open>The command is \<open>removePlayer\<close> of the player with id \<open>k\<close>.\<close>

fun removes :: "ident \<Rightarrow> command \<Rightarrow> bool" where
  "removes k (RemovePlayer i b) = (i = k)"
| "removes k c = False"

section \<open>Auxiliary facts\<close>

lemmas val_defs = ann_def bob_def cid_def team_A_def team_B_def lobby_def in_round_def
  last_entry_def new_Game_def

lemma fillEntries_id: "fillEntries g = g"
  by (simp add: fillEntries_def for_in_iterator_def)

lemma isStarted_startRound: "isStarted (startRound r1 r2 g) = isStarted g"
  by (simp add: startRound_def randomizeEntries_def randomizeTurnOrder_def
      for_in_iterator_def emit_def save_def Let_def)

lemma isStarted_emit: "isStarted (emit ev g) = isStarted g"
  by (simp add: emit_def save_def Let_def)

lemma canStart_iff:
  "canStart g = (\<not> isStarted g \<and>
     (\<forall>u \<in> snd ` set (players g). u_isReady u \<and> (\<exists>t. u_teamId u = Some t \<and> t \<noteq> [])))"
  by (auto simp: canStart_def list_all_iff truthy_str_def split: option.splits)

subsection \<open>The shuffle is a permutation\<close>

lemma mset_shuffle: "mset (shuffle rs xs) = mset xs"
proof (induction rs arbitrary: xs)
  case Nil
  show ?case by simp
next
  case (Cons r rs)
  show ?case
  proof (cases "xs = []")
    case True
    then show ?thesis by simp
  next
    case False
    let ?i = "r mod length xs"
    have i: "?i < length xs" using False by simp
    have "mset xs = mset (take ?i xs @ xs ! ?i # drop (Suc ?i) xs)"
      using id_take_nth_drop [OF i] by simp
    then show ?thesis using False Cons.IH by (simp add: Let_def)
  qed
qed

lemma entriesRemaining_score: "entriesRemaining (score g) = entriesRemaining g"
  by (simp add: score_def emit_def save_def Let_def split: option.splits)

lemma entriesRemaining_nextEntry: "entriesRemaining (nextEntry g) = butlast (entriesRemaining g)"
  by (simp add: nextEntry_def entriesRemaining_score array_size_def truthy_num_def
      finishRound_def clearInterval_def emit_def save_def Let_def split: option.splits)

lemma entriesRemaining_finishTurn: "entriesRemaining (finishTurn r g) = shuffle r (entries g)"
  by (simp add: finishTurn_def randomizeEntries_def emit_def save_def Let_def)

lemma entriesRemaining_startRound:
  "canStartRound g \<Longrightarrow> entriesRemaining (startRound r1 r2 g) = shuffle r2 (entries g)"
  by (simp add: startRound_def randomizeEntries_def randomizeTurnOrder_def for_in_iterator_def
      emit_def save_def Let_def)

subsection \<open>The registry stays well formed\<close>

lemma keys_update: "list_all (\<lambda>p. u_id (snd p) = fst p) ps \<Longrightarrow> u_id v = k \<Longrightarrow>
  list_all (\<lambda>p. u_id (snd p) = fst p) (AList.update k v ps)"
  by (induction ps) auto

lemma registry_ok_update: "registry_ok ps \<Longrightarrow> u_id v = k \<Longrightarrow> registry_ok (AList.update k v ps)"
  by (simp add: registry_ok_def distinct_update keys_update)

lemma registry_ok_delete:
  assumes "registry_ok ps"
  shows "registry_ok (AList.delete k ps)"
proof -
  have "distinct (map fst (AList.delete k ps))"
    using assms by (simp only: registry_ok_def distinct_delete)
  moreover have "list_all (\<lambda>p. u_id (snd p) = fst p) (AList.delete k ps)"
    using assms by (auto simp: registry_ok_def AList.delete_eq list_all_iff)
  ultimately show ?thesis
    by (simp only: registry_ok_def)
qed

lemma registry_ok_lookup: "registry_ok ps \<Longrightarrow> map_of ps k = Some u \<Longrightarrow> u_id u = k"
  by (auto simp: registry_ok_def list_all_iff dest: map_of_SomeD)

lemma registry_ok_modify:
  "registry_ok ps \<Longrightarrow> map_of ps k = Some u \<Longrightarrow> u_id v = u_id u \<Longrightarrow>
   registry_ok (AList.update k v ps)"
  using registry_ok_lookup [of ps k u] by (simp add: registry_ok_update)

lemma players_emit: "players (emit ev g) = players g"
  by (simp add: emit_def save_def Let_def)

lemma signals_emit: "signals (emit ev g) = signals g @ [ev]"
  by (simp add: emit_def save_def Let_def)

lemma registry_ok_checkPlayerReady:
  "registry_ok (players g) \<Longrightarrow> registry_ok (players (checkPlayerReady i g))"
  by (auto simp: checkPlayerReady_def players_emit Let_def
      intro: registry_ok_modify split: option.splits)

lemma registry_ok_addPlayer:
  "registry_ok (players g) \<Longrightarrow> registry_ok (players (addPlayer u m g))"
  by (simp add: addPlayer_def players_emit Let_def registry_ok_update)

lemma registry_ok_setPlayerName:
  assumes "registry_ok (players g)"
  shows "registry_ok (players (setPlayerName i n g))"
proof (cases "map_of (players g) i")
  case None
  with assms show ?thesis by (simp add: setPlayerName_def)
next
  case (Some u)
  have "registry_ok (AList.update i (u\<lparr>u_name := Some n\<rparr>) (players g))"
    using assms Some by (rule registry_ok_modify) simp
  then show ?thesis
    using Some by (simp add: setPlayerName_def Let_def registry_ok_checkPlayerReady players_emit)
qed

lemma registry_ok_setFont:
  "registry_ok (players g) \<Longrightarrow> registry_ok (players (setFont i f g))"
  by (auto simp: setFont_def players_emit Let_def
      intro: registry_ok_modify split: option.splits)

lemma registry_ok_addEntry:
  assumes "registry_ok (players g)"
  shows "registry_ok (players (addEntry i e g))"
proof (cases "map_of (players g) i")
  case None
  with assms show ?thesis by (simp add: addEntry_def)
next
  case (Some u)
  have "registry_ok (AList.update i (u\<lparr>u_entries := u_entries u @ [e]\<rparr>) (players g))"
    using assms Some by (rule registry_ok_modify) simp
  then show ?thesis
    using Some by (simp add: addEntry_def Let_def registry_ok_checkPlayerReady)
qed

lemma registry_ok_addPlayerToTeam:
  "registry_ok (players g) \<Longrightarrow> registry_ok (players (addPlayerToTeam i t g))"
  by (auto simp: addPlayerToTeam_def players_emit Let_def
      intro: registry_ok_modify split: option.splits)

lemma registry_ok_removePlayer:
  "registry_ok (players g) \<Longrightarrow> registry_ok (players (removePlayer i b g))"
  by (simp add: removePlayer_def players_emit Let_def registry_ok_delete)

lemma players_setEntriesPerPlayer: "players (setEntriesPerPlayer n g) = players g"
  by (simp add: setEntriesPerPlayer_def players_emit)

lemma players_addTeam: "players (addTeam t g) = players g"
  by (simp add: addTeam_def players_emit)

lemma players_removeTeam: "players (state_of (removeTeam t g)) = players g"
  by (simp add: removeTeam_def players_emit Let_def split: list.splits)

lemma players_setTurnTime: "players (setTurnTime t g) = players g"
  by (simp add: setTurnTime_def players_emit)

lemma players_startRound: "players (startRound r1 r2 g) = players g"
  by (simp add: startRound_def randomizeEntries_def randomizeTurnOrder_def for_in_iterator_def
      players_emit Let_def)

lemma players_start: "players (start r1 r2 g) = players g"
  by (simp add: start_def players_startRound players_emit fillEntries_id)

lemma players_startTurn: "players (startTurn g) = players g"
  by (simp add: startTurn_def startTimer_def players_emit)

lemma players_score: "players (score g) = players g"
  by (simp add: score_def players_emit Let_def split: option.splits)

lemma players_finishRound: "players (finishRound g) = players g"
  by (simp add: finishRound_def clearInterval_def players_emit split: option.splits)

lemma players_nextEntry: "players (nextEntry g) = players g"
  by (simp add: nextEntry_def players_finishRound players_score players_emit Let_def)

lemma players_finishTurn: "players (finishTurn r g) = players g"
  by (simp add: finishTurn_def randomizeEntries_def players_emit)

lemma players_nextTurn: "players (state_of (nextTurn g)) = players g"
  by (simp add: nextTurn_def shiftTurn_def split: list.splits)

lemma players_nextRound: "players (nextRound g) = players g"
  by (simp add: nextRound_def players_emit)

lemma players_finish: "players (finish g) = players g"
  by (simp add: finish_def players_emit)

lemma players_tick: "players (tick r h g) = players g"
  by (simp add: tick_def players_finishTurn clearInterval_def Let_def split: option.splits)

lemmas players_unchanged = players_setEntriesPerPlayer players_addTeam players_removeTeam
  players_setTurnTime players_startRound players_start players_startTurn players_nextEntry
  players_finishTurn players_nextTurn players_nextRound players_finish players_tick
  players_finishRound

lemma registry_ok_exec:
  "registry_ok (players g) \<Longrightarrow> registry_ok (players (state_of (exec c g)))"
  by (cases c)
    (simp_all add: players_unchanged registry_ok_addPlayer registry_ok_setPlayerName
      registry_ok_setFont registry_ok_addEntry registry_ok_addPlayerToTeam
      registry_ok_removePlayer)

lemma registry_ok_run:
  "registry_ok (players g) \<Longrightarrow> registry_ok (players (run cs g))"
  by (induction cs arbitrary: g) (simp_all add: registry_ok_exec)

lemma registry_ok_new: "registry_ok (players new_Game)"
  by (simp add: new_Game_def registry_ok_def)

subsection \<open>The readiness flag and its signal\<close>

lemma playerIsReady_False: "playerIsReady g u = False"
  by (simp add: playerIsReady_def array_size_def)

lemma ready_at_update_other:
  "i \<noteq> k \<Longrightarrow> ready_at (g\<lparr>players := AList.update i v (players g)\<rparr>) k = ready_at g k"
  by (simp add: ready_at_def update_conv')

lemma ready_at_update_same:
  "ready_at (g\<lparr>players := AList.update k v (players g)\<rparr>) k = u_isReady v"
  by (simp add: ready_at_def update_conv')

lemma ready_at_players: "players g' = players g \<Longrightarrow> ready_at g' k = ready_at g k"
  by (simp add: ready_at_def)

lemma ready_at_modify:
  assumes "ready_at g k" and "map_of (players g) i = Some u" and "u_isReady u \<longrightarrow> u_isReady v"
  shows "ready_at (g\<lparr>players := AList.update i v (players g)\<rparr>) k"
proof (cases "i = k")
  case True
  with assms show ?thesis by (simp add: ready_at_def update_conv')
next
  case False
  with assms show ?thesis by (simp add: ready_at_update_other)
qed

lemma ready_at_checkPlayerReady: "ready_at g k \<Longrightarrow> ready_at (checkPlayerReady i g) k"
proof (cases "map_of (players g) i")
  case None
  assume "ready_at g k"
  with None show ?thesis by (simp add: checkPlayerReady_def)
next
  case (Some u)
  assume r: "ready_at g k"
  have "ready_at (g\<lparr>players := AList.update i (u\<lparr>u_isReady := True\<rparr>) (players g)\<rparr>) k"
    using r Some by (rule ready_at_modify) simp
  then have "ready_at (emit (PlayerReady (u\<lparr>u_isReady := True\<rparr>))
      (g\<lparr>players := AList.update i (u\<lparr>u_isReady := True\<rparr>) (players g)\<rparr>)) k"
    by (simp add: ready_at_def players_emit)
  with r Some show ?thesis by (simp add: checkPlayerReady_def Let_def)
qed

lemma ready_at_addPlayer: "ready_at g k \<Longrightarrow> ready_at (addPlayer u m g) k"
proof (cases "u_id u = k")
  case True
  assume "ready_at g k"
  with True show ?thesis
    by (auto simp: addPlayer_def has_def ready_at_def split: option.splits)
next
  case False
  assume "ready_at g k"
  with False show ?thesis
    by (simp add: addPlayer_def ready_at_def players_emit Let_def update_conv')
qed

lemma ready_at_setPlayerName: "ready_at g k \<Longrightarrow> ready_at (setPlayerName i n g) k"
proof (cases "map_of (players g) i")
  case None
  assume "ready_at g k"
  with None show ?thesis by (simp add: setPlayerName_def)
next
  case (Some u)
  assume r: "ready_at g k"
  have "ready_at (g\<lparr>players := AList.update i (u\<lparr>u_name := Some n\<rparr>) (players g)\<rparr>) k"
    using r Some by (rule ready_at_modify) simp
  then have "ready_at (emit (PlayerNameSet (u\<lparr>u_name := Some n\<rparr>))
      (g\<lparr>players := AList.update i (u\<lparr>u_name := Some n\<rparr>) (players g)\<rparr>)) k"
    by (simp add: ready_at_def players_emit)
  then show ?thesis
    using Some by (simp add: setPlayerName_def Let_def ready_at_checkPlayerReady)
qed

lemma ready_at_setFont: "ready_at g k \<Longrightarrow> ready_at (setFont i f g) k"
proof (cases "map_of (players g) i")
  case None
  assume "ready_at g k"
  with None show ?thesis by (simp add: setFont_def)
next
  case (Some u)
  assume r: "ready_at g k"
  have "ready_at (g\<lparr>players := AList.update i (u\<lparr>u_font := Some f\<rparr>) (players g)\<rparr>) k"
    using r Some by (rule ready_at_modify) simp
  then show ?thesis
    using Some by (simp add: setFont_def Let_def ready_at_def players_emit)
qed

lemma ready_at_addEntry: "ready_at g k \<Longrightarrow> ready_at (addEntry i e g) k"
proof (cases "map_of (players g) i")
  case None
  assume "ready_at g k"
  with None show ?thesis by (simp add: addEntry_def)
next
  case (Some u)
  assume r: "ready_at g k"
  have "ready_at (g\<lparr>players := AList.update i (u\<lparr>u_entries := u_entries u @ [e]\<rparr>) (players g)\<rparr>) k"
    using r Some by (rule ready_at_modify) simp
  then show ?thesis
    using Some by (simp add: addEntry_def Let_def ready_at_checkPlayerReady)
qed

lemma ready_at_addPlayerToTeam: "ready_at g k \<Longrightarrow> ready_at (addPlayerToTeam i t g) k"
proof (cases "map_of (players g) i")
  case None
  assume "ready_at g k"
  with None show ?thesis by (simp add: addPlayerToTeam_def)
next
  case (Some u)
  assume r: "ready_at g k"
  have "ready_at (g\<lparr>players := AList.update i (u\<lparr>u_teamId := Some t\<rparr>) (players g)\<rparr>) k"
    using r Some by (rule ready_at_modify) simp
  then show ?thesis
    using r Some by (simp add: addPlayerToTeam_def Let_def ready_at_def players_emit)
qed

lemma ready_at_removePlayer_other:
  "ready_at g k \<Longrightarrow> i \<noteq> k \<Longrightarrow> ready_at (removePlayer i b g) k"
  by (simp add: removePlayer_def ready_at_def players_emit Let_def delete_conv')

lemma map_of_removePlayer:
  "map_of (players (removePlayer i b g)) k = None \<or>
   map_of (players (removePlayer i b g)) k = map_of (players g) k"
  by (simp add: removePlayer_def players_emit Let_def delete_conv')

lemma ready_at_exec:
  "ready_at g k \<Longrightarrow> \<not> removes k c \<Longrightarrow> ready_at (state_of (exec c g)) k"
  by (cases c)
    (simp_all add: ready_at_addPlayer ready_at_setPlayerName ready_at_setFont ready_at_addEntry
      ready_at_addPlayerToTeam ready_at_removePlayer_other
      ready_at_players [OF players_setEntriesPerPlayer] ready_at_players [OF players_addTeam]
      ready_at_players [OF players_removeTeam] ready_at_players [OF players_setTurnTime]
      ready_at_players [OF players_startRound] ready_at_players [OF players_start]
      ready_at_players [OF players_startTurn] ready_at_players [OF players_nextEntry]
      ready_at_players [OF players_finishTurn] ready_at_players [OF players_nextTurn]
      ready_at_players [OF players_nextRound] ready_at_players [OF players_finish]
      ready_at_players [OF players_tick] ready_at_players [OF players_finishRound])

lemma ready_at_exec_or_gone:
  "ready_at g k \<Longrightarrow>
   map_of (players (state_of (exec c g))) k = None \<or> ready_at (state_of (exec c g)) k"
proof (cases "removes k c")
  case False
  assume "ready_at g k"
  with False show ?thesis by (simp add: ready_at_exec)
next
  case True
  assume r: "ready_at g k"
  from True obtain b where c: "c = RemovePlayer k b"
    by (cases c) simp_all
  show ?thesis
    using r map_of_removePlayer [of k b g k] by (auto simp: c ready_at_def)
qed

lemma ready_at_run:
  "ready_at g k \<Longrightarrow> list_all (\<lambda>c. \<not> removes k c) cs \<Longrightarrow> ready_at (run cs g) k"
  by (induction cs arbitrary: g) (simp_all add: ready_at_exec)

lemma checkPlayerReady_id: "checkPlayerReady i g = g"
  by (simp add: checkPlayerReady_def playerIsReady_False split: option.splits)

lemma ready_signals_emit:
  "filter (ready_for k) (signals (emit ev g)) =
     filter (ready_for k) (signals g) @ (if ready_for k ev then [ev] else [])"
  by (simp add: signals_emit)

lemma signals_startRound:
  "filter (ready_for k) (signals (startRound r1 r2 g)) = filter (ready_for k) (signals g)"
  by (simp add: startRound_def randomizeEntries_def randomizeTurnOrder_def for_in_iterator_def
      signals_emit Let_def)

lemma signals_finishRound:
  "filter (ready_for k) (signals (finishRound g)) = filter (ready_for k) (signals g)"
  by (simp add: finishRound_def clearInterval_def signals_emit split: option.splits)

lemma signals_score:
  "filter (ready_for k) (signals (score g)) = filter (ready_for k) (signals g)"
  by (simp add: score_def signals_emit Let_def split: option.splits)

lemma signals_finishTurn:
  "filter (ready_for k) (signals (finishTurn r g)) = filter (ready_for k) (signals g)"
  by (simp add: finishTurn_def randomizeEntries_def signals_emit)

lemma ready_signals_exec:
  "filter (ready_for k) (signals (state_of (exec c g))) = filter (ready_for k) (signals g)"
proof (cases c)
  case (AddPlayer u m)
  then show ?thesis by (simp add: addPlayer_def signals_emit Let_def)
next
  case (SetPlayerName i n)
  then show ?thesis
    by (simp add: setPlayerName_def checkPlayerReady_id signals_emit Let_def split: option.splits)
next
  case (SetFont i f)
  then show ?thesis by (simp add: setFont_def signals_emit Let_def split: option.splits)
next
  case (RemovePlayer i b)
  then show ?thesis by (simp add: removePlayer_def signals_emit Let_def)
next
  case (SetEntriesPerPlayer n)
  then show ?thesis by (simp add: setEntriesPerPlayer_def signals_emit)
next
  case (AddEntry i e)
  then show ?thesis
    by (simp add: addEntry_def checkPlayerReady_id Let_def split: option.splits)
next
  case (AddTeam t)
  then show ?thesis by (simp add: addTeam_def signals_emit)
next
  case (AddPlayerToTeam i t)
  then show ?thesis by (simp add: addPlayerToTeam_def signals_emit Let_def split: option.splits)
next
  case (RemoveTeam t)
  then show ?thesis by (simp add: removeTeam_def signals_emit Let_def split: list.splits)
next
  case (SetTurnTime t)
  then show ?thesis by (simp add: setTurnTime_def signals_emit)
next
  case (Start r1 r2)
  then show ?thesis by (simp add: start_def signals_startRound fillEntries_id signals_emit)
next
  case (StartRound r1 r2)
  then show ?thesis by (simp add: signals_startRound)
next
  case StartTurn
  then show ?thesis by (simp add: startTurn_def startTimer_def signals_emit)
next
  case NextEntry
  then show ?thesis
    by (simp add: nextEntry_def signals_finishRound signals_score signals_emit Let_def)
next
  case (FinishTurn r)
  then show ?thesis by (simp add: signals_finishTurn)
next
  case NextTurn
  then show ?thesis by (simp add: nextTurn_def shiftTurn_def split: list.splits)
next
  case FinishRound
  then show ?thesis by (simp add: signals_finishRound)
next
  case NextRound
  then show ?thesis by (simp add: nextRound_def signals_emit)
next
  case Finish
  then show ?thesis by (simp add: finish_def signals_emit)
next
  case (Tick r h)
  then show ?thesis
    by (simp add: tick_def signals_finishTurn clearInterval_def Let_def split: option.splits)
qed

lemma ready_signals_run:
  "filter (ready_for k) (signals (run cs g)) = filter (ready_for k) (signals g)"
  by (induction cs arbitrary: g) (simp_all add: ready_signals_exec)


subsection \<open>The scheduled intervals\<close>











section \<open>The claims\<close>

subsection \<open>C1: the guard of start\<close>

text \<open>
  C1, as amended. \<open>start\<close> takes the game from pending to started exactly when the game
  has not started and every registered player has its readiness flag \<open>isReady\<close> set and
  a non-empty team id; when this guard is unmet, \<open>start\<close> leaves the session as it is.
  The guard reads the stored flag: it does not look at the name or at the number of
  entries.
\<close>

theorem start_iff_flags_and_teams:
  "((\<not> isStarted g \<and> isStarted (start r1 r2 g)) =
      (\<not> isStarted g \<and>
       (\<forall>u \<in> snd ` set (players g).
          u_isReady u \<and> (\<exists>t. u_teamId u = Some t \<and> t \<noteq> []))))
   \<and> (\<not> (\<not> isStarted g \<and>
          (\<forall>u \<in> snd ` set (players g).
             u_isReady u \<and> (\<exists>t. u_teamId u = Some t \<and> t \<noteq> [])))
        \<longrightarrow> start r1 r2 g = g)"
proof (cases "canStart g")
  case True
  then have "isStarted (start r1 r2 g)"
    by (simp add: start_def isStarted_startRound isStarted_emit)
  with True show ?thesis
    by (simp add: canStart_iff)
next
  case False
  then have "start r1 r2 g = g"
    by (simp add: start_def)
  with False show ?thesis
    by (simp add: canStart_iff)
qed

text \<open>
  The guard met in \<open>lobby\<close>, and unmet in a lobby whose only player has the flag unset.
\<close>

theorem start_iff_flags_and_teams_witness:
  "isStarted (start [] [] lobby) \<and>
   start [] [] (lobby\<lparr>players := [(''p1'', ann\<lparr>u_isReady := False\<rparr>)]\<rparr>)
     = lobby\<lparr>players := [(''p1'', ann\<lparr>u_isReady := False\<rparr>)]\<rparr>"
  using start_iff_flags_and_teams [of lobby "[]" "[]"]
    start_iff_flags_and_teams [of "lobby\<lparr>players := [(''p1'', ann\<lparr>u_isReady := False\<rparr>)]\<rparr>" "[]" "[]"]
  by (simp add: val_defs)

text \<open>
  With the readiness of C1 read as "name set and entry count equal to entries-per-player"
  the equivalence fails: after the quota is raised to 2 every player of \<open>lobby\<close> still
  has one entry and the flag set, and \<open>start\<close> starts the game.
\<close>

theorem start_latched_quota_counterexample:
  "players (lobby\<lparr>entriesPerPlayer := 2\<rparr>) = [(''p1'', ann), (''p2'', bob), (''p3'', cid)]
   \<and> int (length (u_entries ann)) \<noteq> entriesPerPlayer (lobby\<lparr>entriesPerPlayer := 2\<rparr>)
   \<and> \<not> isStarted (lobby\<lparr>entriesPerPlayer := 2\<rparr>)
   \<and> isStarted (start [] [] (lobby\<lparr>entriesPerPlayer := 2\<rparr>))"
  by (simp add: val_defs start_def canStart_def truthy_str_def isStarted_startRound isStarted_emit)

subsection \<open>C2: the team that scores\<close>

text \<open>
  C2 asks that consuming an entry, also the very last one, credits \<open>scorePerEntry\<close> to
  the team at the front of the queue before the pop. In \<open>last_entry\<close> team A is at the
  front and one entry is left; \<open>nextEntry\<close> pops it, credits no team and emits no
  \<open>teamScored\<close>: \<open>_score\<close> looks the team up under \<open>activeTeam\<close>, which reads
  \<open>turnOrder.size\<close> and is \<open>null\<close>.
\<close>

theorem nextEntry_credits_no_team:
  "turnOrder last_entry = [\<lparr>o_teamId = ''A'', o_players = [''p1'', ''p2'']\<rparr>,
                           \<lparr>o_teamId = ''B'', o_players = [''p3'']\<rparr>]
   \<and> teams last_entry = [(''A'', team_A), (''B'', team_B)]
   \<and> entriesRemaining last_entry = [''cat'']
   \<and> teams (nextEntry last_entry) = [(''A'', team_A), (''B'', team_B)]
   \<and> signals (nextEntry last_entry) = [RoundFinished]
   \<and> entriesRemaining (nextEntry last_entry) = []"
  by (simp add: val_defs nextEntry_def score_def activeTeam_def array_size_def truthy_num_def
      finishRound_def clearInterval_def emit_def save_def Let_def)

subsection \<open>C3: the stack of remaining entries\<close>

text \<open>
  C3, as amended. \<open>nextEntry\<close> removes the top element of the stack of remaining entries
  and nothing else (an empty stack stays empty); when a round starts, and each time a turn
  finishes, the stack becomes a permutation of the whole master entry list.
\<close>

theorem entry_stack_pop_and_refill:
  "entriesRemaining (nextEntry g) = butlast (entriesRemaining g)
   \<and> (entriesRemaining g \<noteq> [] \<longrightarrow>
        entriesRemaining g = entriesRemaining (nextEntry g) @ [last (entriesRemaining g)])
   \<and> (canStartRound g \<longrightarrow> mset (entriesRemaining (startRound r1 r2 g)) = mset (entries g))
   \<and> mset (entriesRemaining (finishTurn r g)) = mset (entries g)"
  by (simp add: entriesRemaining_nextEntry entriesRemaining_finishTurn
      entriesRemaining_startRound mset_shuffle)

text \<open>A pop, a round start and a turn finish in the sample round.\<close>

theorem entry_stack_pop_and_refill_witness:
  "entriesRemaining in_round \<noteq> [] \<and> canStartRound (in_round\<lparr>roundStarted := False\<rparr>)
   \<and> entriesRemaining (nextEntry in_round) = [''owl'']
   \<and> mset (entriesRemaining (startRound [] [2, 0] (in_round\<lparr>roundStarted := False\<rparr>)))
       = {#''cat'', ''dog'', ''owl''#}
   \<and> mset (entriesRemaining (finishTurn [1] in_round)) = {#''cat'', ''dog'', ''owl''#}"
  using entry_stack_pop_and_refill [of in_round "[]" "[2, 0]" "[1]"]
    entry_stack_pop_and_refill [of "in_round\<lparr>roundStarted := False\<rparr>" "[]" "[2, 0]" "[1]"]
  by (simp add: val_defs canStartRound_def)

text \<open>
  C3 as stated fails twice: a turn finish brings the consumed entry \<open>dog\<close> back, so the
  stack is not a permutation of what remained; and \<open>nextEntry\<close> on an empty stack removes
  no element.
\<close>

theorem finishTurn_refills_from_master_counterexample:
  "entriesRemaining in_round = [''owl'', ''cat'']
   \<and> entriesRemaining (finishTurn [] in_round) = [''cat'', ''dog'', ''owl'']
   \<and> mset (entriesRemaining (finishTurn [] in_round)) \<noteq> mset (entriesRemaining in_round)
   \<and> entriesRemaining new_Game = []
   \<and> entriesRemaining (nextEntry new_Game) = []"
  by (simp add: val_defs entriesRemaining_nextEntry entriesRemaining_finishTurn)

subsection \<open>C4: advancing the turn\<close>

text \<open>
  C4 asks that \<open>nextTurn\<close> moves the front entry, with its front player rotated to the
  back, to the back of the queue and resets the turn flags and the countdown. In
  \<open>in_round\<close> the call throws a TypeError out of \<open>_shiftTurn\<close> (\<open>team.push\<close> is called
  on the entry, not on \<open>team.players\<close>): the front entry is gone from the queue, nothing
  is appended, no flag is reset and no event is emitted.
\<close>

theorem nextTurn_throws_and_drops_front:
  "nextTurn in_round =
     Threw TypeError (in_round\<lparr>turnOrder := [\<lparr>o_teamId = ''B'', o_players = [''p3'']\<rparr>]\<rparr>)"
  by (simp add: val_defs nextTurn_def shiftTurn_def)

subsection \<open>C5: the projections of the queue\<close>

text \<open>
  C5 asks that \<open>activeTeam\<close> and \<open>activePlayer\<close> give the team and front player of
  position 0, and \<open>nextTeam\<close> and \<open>nextPlayer\<close> those of position 1. In \<open>in_round\<close>
  the queue has two entries and all four are \<open>null\<close>: they test \<open>turnOrder.size\<close>,
  which an Array does not have.
\<close>

theorem projections_null_on_filled_queue:
  "turnOrder in_round = [\<lparr>o_teamId = ''A'', o_players = [''p1'', ''p2'']\<rparr>,
                          \<lparr>o_teamId = ''B'', o_players = [''p3'']\<rparr>]
   \<and> activeTeam in_round = None \<and> activePlayer in_round = None
   \<and> nextTeam in_round = None \<and> nextPlayer in_round = None"
  by (simp add: val_defs activeTeam_def activePlayer_def nextTeam_def nextPlayer_def
      array_size_def truthy_num_def gt_num_def)

subsection \<open>C6: the interval after a manual finish\<close>



subsection \<open>C7: finishing a turn twice\<close>

text \<open>
  C7, as amended. \<open>finishTurn\<close> has no guard. A second call in a row keeps the turn
  state finished, but it is not a no-op: it saves and emits \<open>turnFinished\<close> again, and
  it refills the stack with a new shuffle of the master entry list.
\<close>

theorem finishTurn_twice:
  "turnFinished (finishTurn r2 (finishTurn r1 g))
   \<and> signals (finishTurn r2 (finishTurn r1 g)) = signals g @ [TurnFinished, TurnFinished]
   \<and> updatedAt (finishTurn r2 (finishTurn r1 g)) = updatedAt g + 2
   \<and> entriesRemaining (finishTurn r2 (finishTurn r1 g)) = shuffle r2 (entries g)
   \<and> finishTurn r2 (finishTurn r1 g)
       = (finishTurn r1 g)\<lparr>entriesRemaining := shuffle r2 (entries g),
            updatedAt := updatedAt g + 2,
            signals := signals g @ [TurnFinished, TurnFinished]\<rparr>"
  by (simp add: finishTurn_def randomizeEntries_def emit_def save_def Let_def)

text \<open>
  C7 as stated fails in the sample round: the second call changes the session, emits a
  second signal and, with other draws, reorders the stack.
\<close>

theorem finishTurn_second_call_counterexample:
  "finishTurn [] (finishTurn [] in_round) \<noteq> finishTurn [] in_round
   \<and> signals (finishTurn [] in_round) = [TurnFinished]
   \<and> signals (finishTurn [] (finishTurn [] in_round)) = [TurnFinished, TurnFinished]
   \<and> entriesRemaining (finishTurn [] in_round) = [''cat'', ''dog'', ''owl'']
   \<and> entriesRemaining (finishTurn [1] (finishTurn [] in_round)) = [''dog'', ''cat'', ''owl'']"
proof -
  have "signals (finishTurn [] (finishTurn [] in_round)) \<noteq> signals (finishTurn [] in_round)"
    by (simp add: val_defs finishTurn_def randomizeEntries_def emit_def save_def Let_def)
  then have "finishTurn [] (finishTurn [] in_round) \<noteq> finishTurn [] in_round"
    by (auto simp del: ext_inject)
  then show ?thesis
    by (simp add: val_defs finishTurn_def randomizeEntries_def emit_def save_def Let_def)
qed

subsection \<open>C8: player ids\<close>

text \<open>
  C8, as amended. In every session that starts from a new game the keys of the player
  registry are distinct, and so are the ids of the registered users; a session that starts
  from any well-formed registry keeps it well formed; \<open>addPlayer\<close> with an
  id that is in the registry leaves the session as it is; \<open>addPlayer\<close> with an id that
  is not in the registry registers the user and leaves the removed-set alone, whether or
  not the id is in it.
\<close>

theorem registry_ids_unique_addPlayer_guard:
  "distinct (map fst (players (run cs new_Game)))
   \<and> distinct (map (\<lambda>p. u_id (snd p)) (players (run cs new_Game)))
   \<and> (registry_ok (players g) \<longrightarrow> registry_ok (players (run cs g)))
   \<and> (has (players g) (u_id u) \<longrightarrow> addPlayer u m g = g)
   \<and> (\<not> has (players g) (u_id u) \<longrightarrow>
        map_of (players (addPlayer u m g)) (u_id u) = Some u
        \<and> removedPlayers (addPlayer u m g) = removedPlayers g)"
proof -
  have ok: "registry_ok (players (run cs new_Game))"
    by (rule registry_ok_run [OF registry_ok_new])
  then have d: "distinct (map fst (players (run cs new_Game)))"
    by (simp add: registry_ok_def)
  have "map (\<lambda>p. u_id (snd p)) (players (run cs new_Game)) = map fst (players (run cs new_Game))"
    using ok by (simp add: registry_ok_def list_all_iff)
  then have "distinct (map (\<lambda>p. u_id (snd p)) (players (run cs new_Game)))
      = distinct (map fst (players (run cs new_Game)))"
    by (rule arg_cong)
  with d have d2: "distinct (map (\<lambda>p. u_id (snd p)) (players (run cs new_Game)))"
    by blast
  have a: "has (players g) (u_id u) \<longrightarrow> addPlayer u m g = g"
    by (simp add: addPlayer_def)
  have b: "\<not> has (players g) (u_id u) \<longrightarrow>
        map_of (players (addPlayer u m g)) (u_id u) = Some u
        \<and> removedPlayers (addPlayer u m g) = removedPlayers g"
    by (simp add: addPlayer_def players_emit emit_def save_def Let_def update_conv')
  have c: "registry_ok (players g) \<longrightarrow> registry_ok (players (run cs g))"
    by (simp add: registry_ok_run)
  from d d2 a b c show ?thesis by blast
qed

text \<open>A session that adds, removes and adds again; a join of a registered id; a rejoin.\<close>

theorem registry_ids_unique_addPlayer_guard_witness:
  "has (players lobby) (u_id ann)
   \<and> registry_ok (players lobby)
   \<and> registry_ok (players (run [AddPlayer ann True, AddPlayer bob False,
        RemovePlayer ''p1'' False, AddPlayer ann False, AddPlayer ann True] lobby))
   \<and> \<not> has (players (removePlayer ''p1'' False lobby)) (u_id ann)
   \<and> distinct (map fst (players (run [AddPlayer ann True, AddPlayer bob False,
        RemovePlayer ''p1'' False, AddPlayer ann False, AddPlayer ann True] new_Game)))
   \<and> addPlayer ann True lobby = lobby
   \<and> map_of (players (addPlayer ann False (removePlayer ''p1'' False lobby))) ''p1'' = Some ann"
  using registry_ids_unique_addPlayer_guard [of "[AddPlayer ann True, AddPlayer bob False,
        RemovePlayer ''p1'' False, AddPlayer ann False, AddPlayer ann True]" lobby ann True]
    registry_ids_unique_addPlayer_guard [of "[]" "removePlayer ''p1'' False lobby" ann False]
  by (simp add: val_defs registry_ok_def addPlayer_def removePlayer_def has_def activePlayer_def
        array_size_def truthy_num_def AList.delete_eq emit_def save_def Let_def)

text \<open>
  C8 as stated fails: \<open>p1\<close> is evicted from \<open>lobby\<close>, is then in the removed-set and
  not in the registry, and \<open>addPlayer\<close> registers it again.
\<close>

theorem removed_id_rejoins_counterexample:
  "has (removedPlayers (removePlayer ''p1'' False lobby)) ''p1''
   \<and> \<not> has (players (removePlayer ''p1'' False lobby)) ''p1''
   \<and> players (addPlayer ann False (removePlayer ''p1'' False lobby))
       = [(''p2'', bob), (''p3'', cid), (''p1'', ann)]
   \<and> addPlayer ann False (removePlayer ''p1'' False lobby) \<noteq> removePlayer ''p1'' False lobby"
proof -
  have "players (addPlayer ann False (removePlayer ''p1'' False lobby))
      \<noteq> players (removePlayer ''p1'' False lobby)"
    by (simp add: val_defs addPlayer_def removePlayer_def has_def activePlayer_def array_size_def
        truthy_num_def AList.delete_eq emit_def save_def Let_def)
  then have "addPlayer ann False (removePlayer ''p1'' False lobby) \<noteq> removePlayer ''p1'' False lobby"
    by (auto simp del: ext_inject)
  then show ?thesis
    by (simp add: val_defs addPlayer_def removePlayer_def has_def activePlayer_def array_size_def
        truthy_num_def AList.delete_eq emit_def save_def Let_def)
qed

subsection \<open>C9: removing a player\<close>

text \<open>
  C9 asks that \<open>removePlayer\<close> does nothing when the player is the active one. In
  \<open>in_round\<close> the player \<open>p1\<close> is at the front of queue position 0, and
  \<open>removePlayer\<close> removes it from the registry and from the rotation of its team: the
  guard compares the id with \<open>activePlayer\<close>, which is \<open>null\<close>.
\<close>

theorem removePlayer_removes_front_player:
  "turnOrder in_round = [\<lparr>o_teamId = ''A'', o_players = [''p1'', ''p2'']\<rparr>,
                          \<lparr>o_teamId = ''B'', o_players = [''p3'']\<rparr>]
   \<and> players (removePlayer ''p1'' False in_round) = [(''p2'', bob), (''p3'', cid)]
   \<and> turnOrder (removePlayer ''p1'' False in_round)
       = [\<lparr>o_teamId = ''A'', o_players = [''p2'']\<rparr>, \<lparr>o_teamId = ''B'', o_players = [''p3'']\<rparr>]
   \<and> master (removePlayer ''p1'' False in_round) = Some ''p2''
   \<and> signals (removePlayer ''p1'' False in_round) = [PlayerRemoved ''p1'']"
  by (simp add: val_defs removePlayer_def has_def activePlayer_def array_size_def truthy_num_def
      AList.delete_eq emit_def save_def Let_def)

subsection \<open>C10: the readiness flag latches\<close>

text \<open>
  C10. No command resets the readiness flag of a registered player: after any command a
  player whose flag was set is either no longer registered or still has the flag set;
  through any sequence of commands that does not remove the player the flag stays set; in
  particular it stays set when entries-per-player changes. In a session that starts from
  a new game \<open>playerReady\<close> is emitted at most once for each player id.
\<close>

theorem ready_flag_latches:
  "(ready_at g k \<longrightarrow>
      map_of (players (state_of (exec c g))) k = None \<or> ready_at (state_of (exec c g)) k)
   \<and> (ready_at g k \<and> list_all (\<lambda>c. \<not> removes k c) cs \<longrightarrow> ready_at (run cs g) k)
   \<and> (ready_at g k \<longrightarrow> ready_at (setEntriesPerPlayer n g) k)
   \<and> length (filter (ready_for k) (signals (run cs new_Game))) \<le> 1"
proof -
  have "filter (ready_for k) (signals (run cs new_Game)) = []"
    by (simp add: ready_signals_run new_Game_def)
  then have "length (filter (ready_for k) (signals (run cs new_Game))) \<le> 1"
    by simp
  moreover have "ready_at g k \<longrightarrow> ready_at (setEntriesPerPlayer n g) k"
    using ready_at_exec [of g k "SetEntriesPerPlayer n"] by simp
  ultimately show ?thesis
    using ready_at_exec_or_gone [of g k c] ready_at_run [of g k cs] by blast
qed

text \<open>
  In \<open>lobby\<close> the player \<open>p1\<close> has one entry and the flag set; the quota is changed to
  5, an entry is added and another player leaves.
\<close>

theorem ready_flag_latches_witness:
  "ready_at lobby ''p1''
   \<and> list_all (\<lambda>c. \<not> removes ''p1'' c)
        [SetEntriesPerPlayer 5, AddEntry ''p1'' ''elk'', RemovePlayer ''p2'' True]
   \<and> ready_at (run [SetEntriesPerPlayer 5, AddEntry ''p1'' ''elk'', RemovePlayer ''p2'' True] lobby) ''p1''
   \<and> entriesPerPlayer (setEntriesPerPlayer 5 lobby) = 5
   \<and> ready_at (setEntriesPerPlayer 5 lobby) ''p1''
   \<and> map_of (players (state_of (exec (RemovePlayer ''p1'' True) lobby))) ''p1'' = None
   \<and> length (filter (ready_for ''p1'') (signals (run
        [SetEntriesPerPlayer 5, AddEntry ''p1'' ''elk'', RemovePlayer ''p2'' True] new_Game))) \<le> 1"
  using ready_flag_latches [of lobby "''p1''" "RemovePlayer ''p1'' True"
      "[SetEntriesPerPlayer 5, AddEntry ''p1'' ''elk'', RemovePlayer ''p2'' True]" 5]
  by (simp add: val_defs ready_at_def setEntriesPerPlayer_def emit_def save_def Let_def
      removePlayer_def has_def activePlayer_def array_size_def truthy_num_def AList.delete_eq)

end
